theory Spec2Isabelle
  imports Complex_Main
begin

section \<open>Data model of \<open>ParallaxGallery.tsx\<close>\<close>

text \<open>
  The two interfaces of the component. The field \<open>id\<close> is written \<open>id_str\<close> and the field
  \<open>image\<close> is written \<open>image_src\<close>, since \<open>id\<close> and \<open>image\<close> are constants of HOL. The fields
  of \<open>BackgroundImage\<close> carry the prefix \<open>bg_\<close>, two records cannot share field names.
  An imported asset is a string whose value the bundler fixes; it is represented by
  its module path.
\<close>

record GalleryItem =
  id_str :: string
  image_src :: string
  title :: string
  author :: string
  date :: string
  description :: string

record BackgroundImage =
  bg_id :: string
  bg_image :: string
  bg_name :: string

definition bgMountainSunset :: string where
  "bgMountainSunset = ''@/assets/bg-mountain-sunset.jpg''"

definition bgForestMist :: string where
  "bgForestMist = ''@/assets/bg-forest-mist.jpg''"

definition bgOceanCliffs :: string where
  "bgOceanCliffs = ''@/assets/bg-ocean-cliffs.jpg''"

definition waterfallTropical :: string where
  "waterfallTropical = ''@/assets/waterfall-tropical.jpg''"

definition mountainPeak :: string where
  "mountainPeak = ''@/assets/mountain-peak.jpg''"

definition flowerField :: string where
  "flowerField = ''@/assets/flower-field.jpg''"

definition backgroundImages :: "BackgroundImage list" where
  "backgroundImages =
     [\<lparr>bg_id = ''bg1'', bg_image = bgMountainSunset, bg_name = ''Mountain Sunset''\<rparr>,
      \<lparr>bg_id = ''bg2'', bg_image = bgForestMist, bg_name = ''Forest Mist''\<rparr>,
      \<lparr>bg_id = ''bg3'', bg_image = bgOceanCliffs, bg_name = ''Ocean Cliffs''\<rparr>]"

definition galleryItems :: "GalleryItem list" where
  "galleryItems =
     [\<lparr>id_str = ''1'', image_src = waterfallTropical, title = ''Tropical Paradise'',
       author = ''Nature Explorer'', date = ''2024-01-15'',
       description = ''A stunning waterfall hidden in the heart of a tropical forest, where crystal clear water cascades through lush vegetation.''\<rparr>,
      \<lparr>id_str = ''2'', image_src = mountainPeak, title = ''Alpine Majesty'',
       author = ''Mountain Photographer'', date = ''2024-01-20'',
       description = ''The raw beauty of snow-capped peaks reaching toward the heavens, captured in perfect morning light.''\<rparr>,
      \<lparr>id_str = ''3'', image_src = flowerField, title = ''Wildflower Dreams'',
       author = ''Botanical Artist'', date = ''2024-01-25'',
       description = ''A meadow alive with vibrant wildflowers, painting the landscape in nature's most beautiful colors.''\<rparr>]"

section \<open>JavaScript primitives the component uses\<close>

text \<open>
  \<open>Array.prototype.slice(start, end)\<close>: a negative bound counts from the end, every bound
  is cut to \<open>[0, length]\<close>, and an absent \<open>end\<close> is the length.
\<close>

definition relative_index :: "int \<Rightarrow> int \<Rightarrow> int" where
  "relative_index len k = (if k < 0 then max (len + k) 0 else min k len)"

definition slice :: "int \<Rightarrow> int option \<Rightarrow> 'a list \<Rightarrow> 'a list" where
  "slice start end xs =
     (let len = int (length xs);
          k = relative_index len start;
          final = (case end of None \<Rightarrow> len | Some e \<Rightarrow> relative_index len e)
      in take (nat (final - k)) (drop (nat k) xs))"

text \<open>
  The template literal \<open>`${n}`\<close> of a non-negative integer: its decimal digits, most
  significant first.
\<close>

definition digit_char :: "nat \<Rightarrow> char" where
  "digit_char d = char_of (48 + d)"

fun number_to_string :: "nat \<Rightarrow> string" where
  "number_to_string n =
     (if n < 10 then [digit_char n]
      else number_to_string (n div 10) @ [digit_char (n mod 10)])"

section \<open>Pagination: the updater of \<open>loadMoreItems\<close>\<close>

definition itemsPerLoad :: nat where
  "itemsPerLoad = 3"

text \<open>The object built in the body of the \<open>for\<close> loop (lines 116 to 120).\<close>

definition newItem :: "nat \<Rightarrow> nat \<Rightarrow> GalleryItem" where
  "newItem currentLength i =
     (let sourceIndex = (currentLength + i) mod length galleryItems
      in (galleryItems ! sourceIndex)
           \<lparr>id_str := id_str (galleryItems ! sourceIndex) @ ''-''
                        @ number_to_string (currentLength + i)\<rparr>)"

text \<open>The \<open>for\<close> loop itself, from counter \<open>i\<close> with the items pushed so far.\<close>

function batch_loop :: "nat \<Rightarrow> nat \<Rightarrow> GalleryItem list \<Rightarrow> GalleryItem list" where
  "batch_loop currentLength i newItems =
     (if i < itemsPerLoad
      then batch_loop currentLength (i + 1) (newItems @ [newItem currentLength i])
      else newItems)"
  by pat_completeness auto
termination
  by (relation "measure (\<lambda>(currentLength, i, newItems). itemsPerLoad - i)") auto

declare batch_loop.simps [simp del]

text \<open>The function passed to \<open>setVisibleItems\<close> inside the timer callback (lines 110 to 125).\<close>

definition append_batch :: "GalleryItem list \<Rightarrow> GalleryItem list" where
  "append_batch prev = prev @ batch_loop (length prev) 0 []"

text \<open>The value the mount effect stores (line 73).\<close>

definition initial_items :: "GalleryItem list" where
  "initial_items = slice 0 (Some 3) galleryItems"

section \<open>Background selection: the effect of lines 87 to 100\<close>

text \<open>
  A JavaScript number is modelled as an exact real: \<open>window.scrollY\<close> may be fractional,
  while \<open>scrollHeight\<close> and \<open>innerHeight\<close> are integers. The first function is the
  arithmetic of lines 93 to 95 for \<open>n\<close> backgrounds and scrollable height \<open>scrollHeight\<close>.
\<close>

definition clampedIndex :: "nat \<Rightarrow> int \<Rightarrow> real \<Rightarrow> int" where
  "clampedIndex n scrollHeight y =
     (let scrollProgress = y / real_of_int scrollHeight;
          newBgIndex = \<lfloor>scrollProgress * real n\<rfloor>
      in max 0 (min newBgIndex (int n - 1)))"

text \<open>\<open>backgroundImages[k]\<close> is truthy exactly when \<open>k\<close> is an index of the array.\<close>

definition has_entry :: "'a list \<Rightarrow> int \<Rightarrow> bool" where
  "has_entry xs k = (0 \<le> k \<and> k < int (length xs))"

text \<open>
  One run of the effect on the scrollable height \<open>scrollHeight\<close> (the document's
  \<open>scrollHeight\<close> minus \<open>window.innerHeight\<close>): the argument of the call of
  \<open>setCurrentBgIndex\<close>, or \<open>None\<close> when the effect returns without calling it.
\<close>

definition select_background :: "BackgroundImage list \<Rightarrow> int \<Rightarrow> real \<Rightarrow> int \<Rightarrow> int option" where
  "select_background bgs scrollHeight y currentBgIndex =
     (if length bgs = 0 then None
      else if scrollHeight \<le> 0 then None
      else let clamped = clampedIndex (length bgs) scrollHeight y
           in if clamped \<noteq> currentBgIndex \<and> has_entry bgs clamped then Some clamped
              else None)"

text \<open>The index held by the state after the effect has run.\<close>

definition index_after :: "int \<Rightarrow> int option \<Rightarrow> int" where
  "index_after currentBgIndex upd = (case upd of None \<Rightarrow> currentBgIndex | Some k \<Rightarrow> k)"

section \<open>Trimming: \<open>handleMemoryOptimization\<close>, lines 154 to 166\<close>

text \<open>
  The guard reads \<open>visibleItems.length\<close> of the render that created the handler
  (\<open>renderedLength\<close>); the updater works on the list \<open>prev\<close> that the state holds when it
  runs. The result is the new list.
\<close>

definition handleMemoryOptimization :: "nat \<Rightarrow> int \<Rightarrow> real \<Rightarrow> 'a list \<Rightarrow> 'a list" where
  "handleMemoryOptimization renderedLength innerHeight scrollY prev =
     (if renderedLength > 20
      then let viewportHeight = innerHeight;
               scrollTop = scrollY;
               keepAfterScroll = scrollTop - real_of_int (viewportHeight * 2);
               itemHeight = 600;
               itemsToKeep = \<lfloor>keepAfterScroll / itemHeight\<rfloor>
           in slice (max 0 itemsToKeep) None prev
      else prev)"

section \<open>The throttle utility, lines 288 to 311\<close>











section \<open>The view: state, events and handlers\<close>

text \<open>
  The four state cells of the component, the resources its effects hold, and the
  pagination timers that are scheduled and have not run. Every handler is run with the
  values of the latest render, as the dependency arrays of the hooks arrange.
\<close>

record view_state =
  visibleItems :: "GalleryItem list"
  currentBgIndex :: int
  isLoading :: bool
  scrollY :: real
  listening :: bool
  observing :: bool
  pendingLoads :: nat

text \<open>The state once the mount effects have run and the first slice is rendered.\<close>

definition mount_state :: view_state where
  "mount_state =
     \<lparr>visibleItems = initial_items, currentBgIndex = 0, isLoading = False, scrollY = 0,
      listening = True, observing = True, pendingLoads = 0\<rparr>"

text \<open>\<open>loadMoreItems\<close>, lines 103 to 128: the guard, the flag, and one more timer of 500.\<close>

definition loadMoreItems :: "view_state \<Rightarrow> view_state" where
  "loadMoreItems s =
     (if isLoading s then s
      else s\<lparr>isLoading := True, pendingLoads := pendingLoads s + 1\<rparr>)"

text \<open>The callback given to \<open>setTimeout\<close>, lines 109 to 127. It has no guard.\<close>

definition load_timer_callback :: "view_state \<Rightarrow> view_state" where
  "load_timer_callback s = s\<lparr>visibleItems := append_batch (visibleItems s), isLoading := False\<rparr>"

text \<open>\<open>handleScroll\<close> followed by the background effect that the new offset triggers.\<close>

definition handleScroll :: "real \<Rightarrow> int \<Rightarrow> int \<Rightarrow> view_state \<Rightarrow> view_state" where
  "handleScroll y docScrollHeight innerHeight s =
     (let s1 = s\<lparr>scrollY := y\<rparr>;
          scrollHeight = docScrollHeight - innerHeight
      in s1\<lparr>currentBgIndex :=
              index_after (currentBgIndex s1)
                (select_background backgroundImages scrollHeight (scrollY s1) (currentBgIndex s1))\<rparr>)"

text \<open>The cleanup functions of the effects (lines 83, 147 to 149 and 171).\<close>

definition unmount :: "view_state \<Rightarrow> view_state" where
  "unmount s = s\<lparr>listening := False, observing := False\<rparr>"

text \<open>
  What the host delivers: a scroll notification with the readings of \<open>window.scrollY\<close>,
  the document's \<open>scrollHeight\<close> and \<open>window.innerHeight\<close>; the sentinel reported as
  intersecting; a pagination timer running out; one execution of the trim handler that
  the throttle lets through, with the length its closure captured and the readings of
  \<open>window.scrollY\<close> and \<open>window.innerHeight\<close>; the unmount.
\<close>

datatype event =
    Scroll real int int
  | Intersect
  | LoadTimer
  | TrimPass nat real int
  | Unmount

fun step :: "event \<Rightarrow> view_state \<Rightarrow> view_state" where
  "step (Scroll y docScrollHeight innerHeight) s =
     (if listening s then handleScroll y docScrollHeight innerHeight s else s)"
| "step Intersect s = (if observing s then loadMoreItems s else s)"
| "step LoadTimer s =
     (if pendingLoads s = 0 then s
      else load_timer_callback (s\<lparr>pendingLoads := pendingLoads s - 1\<rparr>))"
| "step (TrimPass renderedLength y innerHeight) s =
     s\<lparr>visibleItems := handleMemoryOptimization renderedLength innerHeight y (visibleItems s)\<rparr>"
| "step Unmount s = unmount s"

fun run :: "event list \<Rightarrow> view_state \<Rightarrow> view_state" where
  "run [] s = s"
| "run (e # es) s = run es (step e s)"

text \<open>The events of \<open>k\<close> complete pagination rounds: the sentinel, then the timer.\<close>

definition load_batches :: "nat \<Rightarrow> event list" where
  "load_batches k = concat (replicate k [Intersect, LoadTimer])"

section \<open>Pagination appends one batch of three\<close>

lemma galleryItems_length: "length galleryItems = 3"
  by (simp add: galleryItems_def)

lemma batch_loop_map:
  "batch_loop L i xs = xs @ map (newItem L) [i..<itemsPerLoad]"
proof (induction L i xs rule: batch_loop.induct)
  case (1 L i xs)
  show ?case
  proof (cases "i < itemsPerLoad")
    case True
    then have "batch_loop L i xs = batch_loop L (i + 1) (xs @ [newItem L i])"
      by (subst batch_loop.simps) simp
    also have "\<dots> = (xs @ [newItem L i]) @ map (newItem L) [i + 1..<itemsPerLoad]"
      using "1.IH" True by simp
    also have "\<dots> = xs @ map (newItem L) [i..<itemsPerLoad]"
      using True by (simp add: upt_conv_Cons)
    finally show ?thesis .
  next
    case False
    then show ?thesis by (subst batch_loop.simps) simp
  qed
qed

lemma upt_three: "[0..<3] = [0, 1, 2::nat]"
  by (simp add: upt_rec)

lemma append_batch_eq:
  "append_batch prev =
     prev @ [newItem (length prev) 0, newItem (length prev) 1, newItem (length prev) 2]"
  by (simp add: append_batch_def batch_loop_map itemsPerLoad_def upt_three)

text \<open>
  Claim C5. For a list \<open>prev\<close> of length \<open>L\<close>, one batch keeps \<open>prev\<close> as it is and appends
  exactly three entries; the entry for \<open>i = 0, 1, 2\<close> is the source entry at
  \<open>(L + i) mod 3\<close> with every field copied, except that its id is the source id followed
  by \<open>-\<close> and the decimal digits of \<open>L + i\<close>. From the three initial entries the list grows
  to six and the new ids are \<open>1-3\<close>, \<open>2-4\<close>, \<open>3-5\<close>, in this order.
\<close>

theorem append_batch_spec:
  "length (append_batch prev) = length prev + 3
   \<and> take (length prev) (append_batch prev) = prev
   \<and> drop (length prev) (append_batch prev) =
       map (\<lambda>i. (galleryItems ! ((length prev + i) mod 3))
                  \<lparr>id_str := id_str (galleryItems ! ((length prev + i) mod 3)) @ ''-''
                               @ number_to_string (length prev + i)\<rparr>) [0, 1, 2]
   \<and> map id_str initial_items = [''1'', ''2'', ''3'']
   \<and> length (append_batch initial_items) = 6
   \<and> map id_str (append_batch initial_items) = [''1'', ''2'', ''3'', ''1-3'', ''2-4'', ''3-5'']"
proof -
  have a: "length (append_batch prev) = length prev + 3"
    by (simp add: append_batch_eq)
  have b: "take (length prev) (append_batch prev) = prev"
    by (simp add: append_batch_eq)
  have c: "drop (length prev) (append_batch prev) =
       map (\<lambda>i. (galleryItems ! ((length prev + i) mod 3))
                  \<lparr>id_str := id_str (galleryItems ! ((length prev + i) mod 3)) @ ''-''
                               @ number_to_string (length prev + i)\<rparr>) [0, 1, 2]"
    by (simp add: append_batch_eq newItem_def galleryItems_length Let_def)
  have d: "map id_str initial_items = [''1'', ''2'', ''3'']"
    by code_simp
  have e: "length (append_batch initial_items) = 6"
    by code_simp
  have f: "map id_str (append_batch initial_items) = [''1'', ''2'', ''3'', ''1-3'', ''2-4'', ''3-5'']"
    by code_simp
  from a b c d e f show ?thesis by blast
qed

section \<open>The trim pass removes a prefix\<close>

lemma slice_from: "0 \<le> k \<Longrightarrow> slice k None xs = drop (nat k) xs"
  by (simp add: slice_def relative_index_def Let_def min_def)

lemma trim_eq:
  "20 < n \<Longrightarrow> handleMemoryOptimization n vh y prev =
      drop (nat (max 0 \<lfloor>(y - 2 * real_of_int vh) / 600\<rfloor>)) prev"
  by (simp add: handleMemoryOptimization_def Let_def slice_from mult.commute)



lemma trim_all:
  assumes "20 < length prev" and "int (length prev) \<le> \<lfloor>(y - 2 * real_of_int vh) / 600\<rfloor>"
  shows "handleMemoryOptimization (length prev) vh y prev = []"
  using assms by (simp add: trim_eq)

text \<open>
  Claim C10. Nothing bounds from below what the trim pass keeps: after six pagination
  rounds the view holds 21 entries, and a trim pass at scroll offset 14200 with viewport
  height 800, where \<open>\<lfloor>(14200 - 1600) / 600\<rfloor> = 21\<close>, leaves the list empty.
\<close>

theorem trim_can_remove_everything:
  "\<exists>es vh y. 20 < length (visibleItems (run es mount_state))
      \<and> int (length (visibleItems (run es mount_state))) \<le> \<lfloor>(y - 2 * real_of_int vh) / 600\<rfloor>
      \<and> handleMemoryOptimization (length (visibleItems (run es mount_state))) vh y
           (visibleItems (run es mount_state)) = []
      \<and> visibleItems (step (TrimPass (length (visibleItems (run es mount_state))) y vh)
           (run es mount_state)) = []"
proof -
  define items where "items = visibleItems (run (load_batches 6) mount_state)"
  have len: "length items = 21"
    unfolding items_def by code_simp
  have fl: "\<lfloor>(14200 - 2 * real_of_int 800) / 600\<rfloor> = 21"
    by (simp add: floor_eq_iff)
  have big: "20 < length items" and far: "int (length items) \<le> \<lfloor>(14200 - 2 * real_of_int 800) / 600\<rfloor>"
    using len fl by simp_all
  have gone: "handleMemoryOptimization (length items) 800 14200 items = []"
    using trim_all [OF big far] .
  then have "visibleItems (step (TrimPass (length items) 14200 800) (run (load_batches 6) mount_state)) = []"
    unfolding items_def by simp
  with big far gone show ?thesis
    unfolding items_def by blast
qed

section \<open>Background selection\<close>







text \<open>
  Claim C8. When the scrollable height is not positive or the list of backgrounds is
  empty, the effect returns without calling the setter and the index stays as it is,
  for every offset; so a scroll notification on a document that cannot scroll leaves
  \<open>currentBgIndex\<close> unchanged.
\<close>

theorem background_unchanged_when_degenerate:
  "(scrollHeight \<le> 0 \<or> length bgs = 0 \<longrightarrow>
      select_background bgs scrollHeight y cur = None
      \<and> index_after cur (select_background bgs scrollHeight y cur) = cur)
   \<and> (docScrollHeight - innerHeight \<le> 0 \<longrightarrow>
      currentBgIndex (step (Scroll y docScrollHeight innerHeight) s) = currentBgIndex s)"
  by (simp add: select_background_def index_after_def handleScroll_def Let_def)

theorem background_unchanged_when_degenerate_witness:
  "((1000::int) \<le> 0 \<or> length ([]::BackgroundImage list) = 0)
   \<and> select_background [] 1000 500 1 = None
   \<and> index_after 1 (select_background [] 1000 500 1) = 1
   \<and> ((- 5::int) \<le> 0 \<or> length backgroundImages = 0)
   \<and> select_background backgroundImages (- 5) 500 1 = None
   \<and> index_after 1 (select_background backgroundImages (- 5) 500 1) = 1
   \<and> (700::int) - 700 \<le> 0
   \<and> currentBgIndex (step (Scroll 500 700 700) (mount_state\<lparr>currentBgIndex := 1\<rparr>)) =
       currentBgIndex (mount_state\<lparr>currentBgIndex := 1\<rparr>)"
proof -
  have h1: "(1000::int) \<le> 0 \<or> length ([]::BackgroundImage list) = 0"
    by simp
  have h2: "(- 5::int) \<le> 0 \<or> length backgroundImages = 0"
    by simp
  have h3: "(700::int) - 700 \<le> 0"
    by simp
  note empty_list = background_unchanged_when_degenerate
      [where scrollHeight = 1000 and bgs = "[]" and y = 500 and cur = 1,
       THEN conjunct1, THEN mp, OF h1]
  note no_height = background_unchanged_when_degenerate
      [where scrollHeight = "- 5" and bgs = backgroundImages and y = 500 and cur = 1,
       THEN conjunct1, THEN mp, OF h2]
  note in_view = background_unchanged_when_degenerate
      [where docScrollHeight = 700 and innerHeight = 700 and y = 500
         and s = "mount_state\<lparr>currentBgIndex := 1\<rparr>",
       THEN conjunct2, THEN mp, OF h3]
  from h1 h2 h3 empty_list no_height in_view show ?thesis
    by blast
qed

text \<open>
  Claim C9. Running the effect a second time with the same offset, height and
  backgrounds calls the setter no more: it returns \<open>None\<close>, the index is the one the first
  run left, and handling the same scroll notification twice gives the state of
  handling it once.
\<close>

theorem background_selection_idempotent:
  "select_background bgs scrollHeight y
      (index_after cur (select_background bgs scrollHeight y cur)) = None
   \<and> index_after (index_after cur (select_background bgs scrollHeight y cur))
        (select_background bgs scrollHeight y
           (index_after cur (select_background bgs scrollHeight y cur)))
      = index_after cur (select_background bgs scrollHeight y cur)
   \<and> handleScroll y docScrollHeight innerHeight (handleScroll y docScrollHeight innerHeight s)
      = handleScroll y docScrollHeight innerHeight s"
  by (simp add: select_background_def index_after_def handleScroll_def Let_def)

section \<open>One pagination batch at a time\<close>








section \<open>Unmounting with a batch pending\<close>

text \<open>
  Claim C2. The claim asks that unmounting releases every pending timer, so that nothing
  is written afterwards. The cleanup functions disconnect the observer and remove the
  scroll listeners, and nothing clears the timer of \<open>loadMoreItems\<close>: after mount, one
  sentinel trigger and the unmount, the timer is still pending, and when it runs out
  its callback appends the batch \<open>1-3\<close>, \<open>2-4\<close>, \<open>3-5\<close> and resets \<open>isLoading\<close>.
\<close>

theorem load_timer_outlives_unmount:
  "\<not> observing (run [Intersect, Unmount] mount_state)
   \<and> \<not> listening (run [Intersect, Unmount] mount_state)
   \<and> pendingLoads (run [Intersect, Unmount] mount_state) = 1
   \<and> isLoading (run [Intersect, Unmount] mount_state)
   \<and> \<not> isLoading (step LoadTimer (run [Intersect, Unmount] mount_state))
   \<and> map id_str (visibleItems (run [Intersect, Unmount] mount_state)) = [''1'', ''2'', ''3'']
   \<and> map id_str (visibleItems (step LoadTimer (run [Intersect, Unmount] mount_state)))
       = [''1'', ''2'', ''3'', ''1-3'', ''2-4'', ''3-5'']"
  by code_simp

section \<open>Identifiers after a trim\<close>

text \<open>
  Claim C1. The claim asks for pairwise distinct ids in every state reached by
  pagination and trim passes. Six pagination rounds give 21 entries with distinct ids.
  A trim pass at scroll offset 3400 with viewport height 800 removes the first three,
  and the next batch numbers its entries from the new length 18: its ids \<open>1-18\<close>, \<open>2-19\<close>,
  \<open>3-20\<close> are those of the last three entries already in the list.
\<close>

theorem ids_collide_after_trim:
  "length (visibleItems (run (load_batches 6) mount_state)) = 21
   \<and> distinct (map id_str (visibleItems (run (load_batches 6) mount_state)))
   \<and> map id_str (visibleItems
        (run (load_batches 6 @ [TrimPass 21 3400 800, Intersect, LoadTimer]) mount_state))
      = [''1-3'', ''2-4'', ''3-5'', ''1-6'', ''2-7'', ''3-8'', ''1-9'', ''2-10'', ''3-11'',
         ''1-12'', ''2-13'', ''3-14'', ''1-15'', ''2-16'', ''3-17'', ''1-18'', ''2-19'',
         ''3-20'', ''1-18'', ''2-19'', ''3-20'']
   \<and> \<not> distinct (map id_str (visibleItems
        (run (load_batches 6 @ [TrimPass 21 3400 800, Intersect, LoadTimer]) mount_state)))"
  by code_simp

section \<open>The throttle\<close>











end
